theory Spec2Isabelle
  imports Main
begin

section \<open>Python values, exceptions and time\<close>

text \<open>
  The tracker of \<^verbatim>\<open>pr_tracker.py\<close> keeps a Python set of pull request ids in memory and
  a JSON file on disk. What \<^verbatim>\<open>json.load\<close> returns is modelled by the datatype below:
  \<^verbatim>\<open>None\<close>, \<^verbatim>\<open>bool\<close>, \<^verbatim>\<open>int\<close>, \<^verbatim>\<open>str\<close>, \<^verbatim>\<open>list\<close> and \<^verbatim>\<open>dict\<close> (an association list
  standing for the parsed dict, read with \<open>map_of\<close>). JSON numbers with a fraction or an
  exponent (Python floats) are not part of the model.
\<close>

datatype json =
    JNull
  | JBool bool
  | JInt int
  | JStr string
  | JArr "json list"
  | JObj "(string \<times> json) list"

text \<open>The exception classes the code can meet; all of them are subclasses of \<^verbatim>\<open>Exception\<close>.\<close>

datatype py_exception =
    OSError
  | JSONDecodeError
  | AttributeError
  | TypeError
  | KeyError
  | ValueError
  | OverflowError

text \<open>Sequencing of statements that may raise: the first exception ends the block.\<close>

definition bindE :: "py_exception + 'a \<Rightarrow> ('a \<Rightarrow> py_exception + 'b) \<Rightarrow> py_exception + 'b" where
  "bindE m f = (case m of Inl x \<Rightarrow> Inl x | Inr v \<Rightarrow> f v)"

text \<open>
  A naive \<^verbatim>\<open>datetime\<close> is its number of microseconds since \<^verbatim>\<open>datetime.min\<close>
  (0001-01-01T00:00:00); \<^verbatim>\<open>datetime.max\<close> is 9999-12-31T23:59:59.999999. A \<^verbatim>\<open>timedelta\<close>
  is a number of microseconds. Both constructors raise \<^verbatim>\<open>OverflowError\<close> out of range.
\<close>

definition MAX_US :: int where
  "MAX_US = 315537897599999999"

definition US_PER_DAY :: int where
  "US_PER_DAY = 86400000000"

definition timedelta_days :: "int \<Rightarrow> py_exception + int" where
  "timedelta_days days =
     (if 999999999 < \<bar>days\<bar> then Inl OverflowError else Inr (days * US_PER_DAY))"

definition datetime_sub :: "int \<Rightarrow> int \<Rightarrow> py_exception + int" where
  "datetime_sub t delta =
     (let r = t - delta in if r < 0 \<or> MAX_US < r then Inl OverflowError else Inr r)"

text \<open>
  Writing an int as a decimal string (\<^verbatim>\<open>str\<close>, an f-string, \<^verbatim>\<open>json.dump\<close>) raises
  \<^verbatim>\<open>ValueError\<close> when the int has more than 4300 digits, the default of
  \<^verbatim>\<open>sys.get_int_max_str_digits()\<close>; the sign does not count.
\<close>

definition int_max_str_digits :: nat where
  "int_max_str_digits = 4300"

definition format_int :: "int \<Rightarrow> py_exception option" where
  "format_int i = (if \<bar>i\<bar> < 10 ^ int_max_str_digits then None else Some ValueError)"

text \<open>
  The two library functions on timestamps are parameters of the model.
  \<open>fromisoformat L s = None\<close> is \<^verbatim>\<open>datetime.fromisoformat(s)\<close> raising \<^verbatim>\<open>ValueError\<close>;
  \<open>Some t\<close> is the wall-clock reading of the parsed value, which the following
  \<^verbatim>\<open>.replace(tzinfo=None)\<close> keeps while dropping the offset.
  \<open>isoformat L t\<close> is \<^verbatim>\<open>t.isoformat()\<close> of a naive datetime.
\<close>

record datetime_lib =
  fromisoformat :: "string \<Rightarrow> int option"
  isoformat :: "int \<Rightarrow> string"

text \<open>\<^verbatim>\<open>timestamp_str.replace('Z', '+00:00')\<close>\<close>

definition str_replace_Z :: "string \<Rightarrow> string" where
  "str_replace_Z s = concat (map (\<lambda>c. if c = CHR ''Z'' then ''+00:00'' else [c]) s)"

text \<open>Truth value of a Python object in \<^verbatim>\<open>if x:\<close>; \<^verbatim>\<open>dict.get\<close> gives \<^verbatim>\<open>None\<close> for a missing key.\<close>

fun truthy :: "json \<Rightarrow> bool" where
  "truthy JNull = False"
| "truthy (JBool b) = b"
| "truthy (JInt i) = (i \<noteq> 0)"
| "truthy (JStr s) = (s \<noteq> [])"
| "truthy (JArr es) = (es \<noteq> [])"
| "truthy (JObj kvs) = (kvs \<noteq> [])"

fun truthy_opt :: "json option \<Rightarrow> bool" where
  "truthy_opt None = False"
| "truthy_opt (Some v) = truthy v"

text \<open>
  Elements of the in-memory set. A Python set holds hashable values and identifies
  \<^verbatim>\<open>True\<close> with \<^verbatim>\<open>1\<close> and \<^verbatim>\<open>False\<close> with \<^verbatim>\<open>0\<close>, so a bool is stored as that int; lists and
  dicts are unhashable (\<^verbatim>\<open>set.add\<close> raises \<^verbatim>\<open>TypeError\<close>).
\<close>

datatype pr_key = NoneKey | IntKey int | StrKey string

fun hash_key :: "json \<Rightarrow> pr_key option" where
  "hash_key JNull = Some NoneKey"
| "hash_key (JBool b) = Some (IntKey (if b then 1 else 0))"
| "hash_key (JInt i) = Some (IntKey i)"
| "hash_key (JStr s) = Some (StrKey s)"
| "hash_key (JArr es) = None"
| "hash_key (JObj kvs) = None"

fun key_json :: "pr_key \<Rightarrow> json" where
  "key_json NoneKey = JNull"
| "key_json (IntKey i) = JInt i"
| "key_json (StrKey s) = JStr s"

text \<open>
  The set itself is a list read as a set: membership is \<open>k \<in> set s\<close>, \<^verbatim>\<open>len\<close> counts
  distinct members, iteration visits each member once (the order of iteration is that
  of insertion here; nothing in the code depends on it).
\<close>

definition set_add :: "pr_key \<Rightarrow> pr_key list \<Rightarrow> pr_key list" where
  "set_add k s = (if k \<in> set s then s else s @ [k])"

definition set_len :: "pr_key list \<Rightarrow> nat" where
  "set_len s = length (remdups s)"

definition set_add_json :: "json \<Rightarrow> pr_key list \<Rightarrow> py_exception + pr_key list" where
  "set_add_json v s = (case hash_key v of None \<Rightarrow> Inl TypeError | Some k \<Rightarrow> Inr (set_add k s))"

section \<open>The file system\<close>

text \<open>
  A file holds either a complete JSON document or something \<^verbatim>\<open>json.load\<close> rejects
  (an empty, truncated or otherwise corrupt file, or one with an integer of more than
  4300 digits). The file system maps paths to contents.
\<close>

datatype content = Garbage | Doc json

type_synonym filesystem = "string \<rightharpoonup> content"

definition os_path_exists :: "filesystem \<Rightarrow> string \<Rightarrow> bool" where
  "os_path_exists fs p = (fs p \<noteq> None)"

definition os_rename :: "string \<Rightarrow> string \<Rightarrow> filesystem \<Rightarrow> filesystem" where
  "os_rename src dst fs = (fs(dst := fs src))(src := None)"

text \<open>
  \<^verbatim>\<open>open(path, 'r')\<close> followed by \<^verbatim>\<open>json.load\<close>: the read may fail (\<^verbatim>\<open>OSError\<close>), the
  contents may be unparsable (\<^verbatim>\<open>JSONDecodeError\<close>).
\<close>

definition json_load :: "bool \<Rightarrow> content \<Rightarrow> py_exception + json" where
  "json_load read_fails c =
     (if read_fails then Inl OSError
      else case c of Garbage \<Rightarrow> Inl JSONDecodeError | Doc d \<Rightarrow> Inr d)"

section \<open>PRTracker\<close>

text \<open>
  The object has two attributes. Every method takes the tracker and the file system and
  gives the tracker and the file system it leaves, and the exception that leaves the
  method, if any. Calls of the logger change neither the tracker nor the tracking
  file, and their messages format a length, a count or a caught exception, which
  cannot fail; the one exception is the message of \<^verbatim>\<open>mark_pr_as_seen\<close>, which formats the
  identifier itself and is part of the model.
\<close>

record tracker =
  storage_file :: string
  seen_prs :: "pr_key list"

subsection \<open>save_seen_prs\<close>

text \<open>
  What the environment does to one call of \<^verbatim>\<open>save_seen_prs\<close>: the clock reading, the
  step of the write-then-rename protocol that raises (if any), and whether \<^verbatim>\<open>os.remove\<close>
  in the handler raises. A step raises for whatever reason: a full disk, a missing
  permission, or, for the write, \<^verbatim>\<open>json.dump\<close> refusing an identifier of more than 4300
  digits.
\<close>

datatype save_fault = NoFault | OpenFails | DumpFails | RenameFails

record save_env =
  save_now :: int
  fault :: save_fault
  remove_fails :: bool

definition temp_path :: "string \<Rightarrow> string" where
  "temp_path p = p @ ''.tmp''"

definition prs_record :: "string \<Rightarrow> pr_key \<Rightarrow> json" where
  "prs_record current_time pr_id =
     JObj [(''id'', key_json pr_id), (''timestamp'', JStr current_time)]"

definition save_data :: "datetime_lib \<Rightarrow> int \<Rightarrow> pr_key list \<Rightarrow> json" where
  "save_data L now s =
     (let current_time = isoformat L now @ ''Z'';
          prs_data = map (prs_record current_time) (remdups s)
      in JObj [(''version'', JStr ''1.0''),
               (''last_updated'', JStr current_time),
               (''prs'', JArr prs_data)])"

text \<open>
  The \<^verbatim>\<open>try\<close> block: the exception raised (if any) and the file system it leaves.
  \<^verbatim>\<open>open(temp_file, 'w')\<close> creates or truncates the temporary file; a failing
  \<^verbatim>\<open>json.dump\<close> leaves it incomplete; \<^verbatim>\<open>os.rename\<close> replaces the backing file.
\<close>

definition save_try ::
  "datetime_lib \<Rightarrow> save_env \<Rightarrow> tracker \<Rightarrow> filesystem \<Rightarrow> py_exception option \<times> filesystem" where
  "save_try L e t fs =
     (let data = save_data L (save_now e) (seen_prs t);
          temp_file = temp_path (storage_file t)
      in case fault e of
           OpenFails \<Rightarrow> (Some OSError, fs)
         | DumpFails \<Rightarrow> (Some OSError, fs(temp_file \<mapsto> Garbage))
         | RenameFails \<Rightarrow> (Some OSError, fs(temp_file \<mapsto> Doc data))
         | NoFault \<Rightarrow> (None, os_rename temp_file (storage_file t) (fs(temp_file \<mapsto> Doc data))))"

text \<open>The \<^verbatim>\<open>except Exception\<close> handler: remove the temporary file, ignoring a failure.\<close>

definition save_except :: "save_env \<Rightarrow> tracker \<Rightarrow> filesystem \<Rightarrow> filesystem" where
  "save_except e t fs =
     (let temp_file = temp_path (storage_file t)
      in if os_path_exists fs temp_file
         then (if remove_fails e then fs else fs(temp_file := None))
         else fs)"

definition save_seen_prs ::
  "datetime_lib \<Rightarrow> save_env \<Rightarrow> tracker \<Rightarrow> filesystem \<Rightarrow> py_exception + filesystem" where
  "save_seen_prs L e t fs =
     (case save_try L e t fs of
        (None, fs') \<Rightarrow> Inr fs'
      | (Some ex, fs') \<Rightarrow> Inr (save_except e t fs'))"

subsection \<open>load_seen_prs\<close>

text \<open>
  One pass of the \<^verbatim>\<open>for entry in ...\<close> loop of \<^verbatim>\<open>load_seen_prs\<close>. A truthy timestamp
  that is not a string has no \<^verbatim>\<open>replace\<close> (\<^verbatim>\<open>AttributeError\<close>, which the inner handler does
  not catch); a string that \<^verbatim>\<open>fromisoformat\<close> rejects is the \<^verbatim>\<open>ValueError\<close> the inner handler
  turns into \<^verbatim>\<open>continue\<close>; adding an unhashable id raises \<^verbatim>\<open>TypeError\<close>. Where the test
  \<^verbatim>\<open>pr_id and timestamp_str\<close> holds the id is present, so the branch for a missing id
  is never taken. \<^verbatim>\<open>isinstance(entry, int)\<close> holds for ints and bools.
\<close>

fun load_entry ::
  "datetime_lib \<Rightarrow> int \<Rightarrow> json \<Rightarrow> pr_key list \<Rightarrow> py_exception + pr_key list" where
  "load_entry L cutoff_time (JObj kvs) valid_prs =
     (let pr_id = map_of kvs ''id'';
          timestamp_str = map_of kvs ''timestamp''
      in if truthy_opt pr_id \<and> truthy_opt timestamp_str then
           (case timestamp_str of
              Some (JStr s) \<Rightarrow>
                (case fromisoformat L (str_replace_Z s) of
                   None \<Rightarrow> Inr valid_prs
                 | Some timestamp \<Rightarrow>
                     if cutoff_time \<le> timestamp
                     then (case pr_id of
                             Some v \<Rightarrow> set_add_json v valid_prs
                           | None \<Rightarrow> Inr valid_prs)
                     else Inr valid_prs)
            | _ \<Rightarrow> Inl AttributeError)
         else Inr valid_prs)"
| "load_entry L cutoff_time (JInt i) valid_prs = Inr (set_add (IntKey i) valid_prs)"
| "load_entry L cutoff_time (JBool b) valid_prs =
     Inr (set_add (IntKey (if b then 1 else 0)) valid_prs)"
| "load_entry L cutoff_time JNull valid_prs = Inr valid_prs"
| "load_entry L cutoff_time (JStr s) valid_prs = Inr valid_prs"
| "load_entry L cutoff_time (JArr es) valid_prs = Inr valid_prs"

fun load_loop ::
  "datetime_lib \<Rightarrow> int \<Rightarrow> json list \<Rightarrow> pr_key list \<Rightarrow> py_exception + pr_key list" where
  "load_loop L cutoff_time [] valid_prs = Inr valid_prs"
| "load_loop L cutoff_time (entry # rest) valid_prs =
     bindE (load_entry L cutoff_time entry valid_prs) (load_loop L cutoff_time rest)"

text \<open>\<^verbatim>\<open>data.get('prs', [])\<close>: only a dict has \<^verbatim>\<open>get\<close>.\<close>

fun dict_get_prs :: "json \<Rightarrow> py_exception + json" where
  "dict_get_prs (JObj kvs) = Inr (case map_of kvs ''prs'' of None \<Rightarrow> JArr [] | Some v \<Rightarrow> v)"
| "dict_get_prs JNull = Inl AttributeError"
| "dict_get_prs (JBool b) = Inl AttributeError"
| "dict_get_prs (JInt i) = Inl AttributeError"
| "dict_get_prs (JStr s) = Inl AttributeError"
| "dict_get_prs (JArr es) = Inl AttributeError"

text \<open>
  Iterating a value: a list gives its elements, a string its characters (as strings),
  a dict its keys; anything else is not iterable. \<^verbatim>\<open>len\<close> of such a value is the number
  of items.
\<close>

fun py_iter :: "json \<Rightarrow> py_exception + json list" where
  "py_iter (JArr es) = Inr es"
| "py_iter (JStr s) = Inr (map (\<lambda>c. JStr [c]) s)"
| "py_iter (JObj kvs) = Inr (map (\<lambda>kv. JStr (fst kv)) kvs)"
| "py_iter JNull = Inl TypeError"
| "py_iter (JBool b) = Inl TypeError"
| "py_iter (JInt i) = Inl TypeError"

text \<open>
  The \<^verbatim>\<open>try\<close> block of \<^verbatim>\<open>load_seen_prs\<close>. \<open>now\<close> is the clock reading, \<open>read_fails\<close> says
  whether reading the backing file raises, \<open>se\<close> is the environment of the nested
  \<^verbatim>\<open>save_seen_prs\<close>.
\<close>

definition load_try ::
  "datetime_lib \<Rightarrow> int \<Rightarrow> bool \<Rightarrow> save_env \<Rightarrow> tracker \<Rightarrow> filesystem
     \<Rightarrow> py_exception + (tracker \<times> filesystem)" where
  "load_try L now read_fails se t fs =
     (case fs (storage_file t) of
        None \<Rightarrow> Inr (t, fs)
      | Some c \<Rightarrow>
          bindE (json_load read_fails c) (\<lambda>data.
          bindE (timedelta_days 30) (\<lambda>delta.
          bindE (datetime_sub now delta) (\<lambda>cutoff_time.
          bindE (dict_get_prs data) (\<lambda>prs.
          bindE (py_iter prs) (\<lambda>entries.
          bindE (load_loop L cutoff_time entries []) (\<lambda>valid_prs.
            (let t' = t\<lparr>seen_prs := valid_prs\<rparr>
             in if set_len valid_prs \<noteq> length entries
                then bindE (save_seen_prs L se t' fs) (\<lambda>fs'. Inr (t', fs'))
                else Inr (t', fs)))))))))"

definition load_seen_prs ::
  "datetime_lib \<Rightarrow> int \<Rightarrow> bool \<Rightarrow> save_env \<Rightarrow> tracker \<Rightarrow> filesystem
     \<Rightarrow> py_exception + (tracker \<times> filesystem)" where
  "load_seen_prs L now read_fails se t fs =
     (case load_try L now read_fails se t fs of
        Inr r \<Rightarrow> Inr r
      | Inl ex \<Rightarrow> Inr (t\<lparr>seen_prs := []\<rparr>, fs))"

text \<open>\<^verbatim>\<open>PRTracker(storage_file)\<close>: an empty set, then \<^verbatim>\<open>load_seen_prs\<close>.\<close>

definition PRTracker ::
  "datetime_lib \<Rightarrow> int \<Rightarrow> bool \<Rightarrow> save_env \<Rightarrow> string \<Rightarrow> filesystem
     \<Rightarrow> py_exception + (tracker \<times> filesystem)" where
  "PRTracker L now read_fails se path fs =
     load_seen_prs L now read_fails se \<lparr>storage_file = path, seen_prs = []\<rparr> fs"

subsection \<open>has_seen_pr, mark_pr_as_seen, get_seen_count\<close>

definition has_seen_pr :: "tracker \<Rightarrow> int \<Rightarrow> bool" where
  "has_seen_pr t pr_id = (IntKey pr_id \<in> set (seen_prs t))"

text \<open>
  \<^verbatim>\<open>mark_pr_as_seen\<close> has no \<^verbatim>\<open>try\<close> block. For a new identifier it adds to the set, saves,
  and then formats the identifier into the message of \<^verbatim>\<open>logger.debug\<close>; when that raises,
  the exception leaves the method with the insertion and the save already done. The
  result is the exception that leaves the method (if any) and the tracker and file
  system it leaves behind. (\<^verbatim>\<open>save_seen_prs\<close> catches what it raises, so the first branch
  of the \<open>case\<close> is never taken.)
\<close>

definition mark_pr_as_seen ::
  "datetime_lib \<Rightarrow> save_env \<Rightarrow> int \<Rightarrow> tracker \<Rightarrow> filesystem
     \<Rightarrow> py_exception option \<times> tracker \<times> filesystem" where
  "mark_pr_as_seen L se pr_id t fs =
     (if IntKey pr_id \<notin> set (seen_prs t)
      then (let t' = t\<lparr>seen_prs := set_add (IntKey pr_id) (seen_prs t)\<rparr>
            in case save_seen_prs L se t' fs of
                 Inl ex \<Rightarrow> (Some ex, t', fs)
               | Inr fs' \<Rightarrow> (format_int pr_id, t', fs'))
      else (None, t, fs))"

definition get_seen_count :: "tracker \<Rightarrow> nat" where
  "get_seen_count t = set_len (seen_prs t)"

subsection \<open>cleanup_old_entries\<close>

text \<open>
  The loop of \<^verbatim>\<open>cleanup_old_entries\<close> tests the timestamp only and reads the id with
  \<^verbatim>\<open>entry['id']\<close>, which raises \<^verbatim>\<open>KeyError\<close> when the key is missing. After the loop the
  in-memory set is replaced and saved; an exception anywhere in the \<^verbatim>\<open>try\<close> block is
  logged and leaves the tracker as it was.
\<close>

fun cleanup_entry ::
  "datetime_lib \<Rightarrow> int \<Rightarrow> json \<Rightarrow> pr_key list \<Rightarrow> py_exception + pr_key list" where
  "cleanup_entry L cutoff_time (JObj kvs) valid_prs =
     (let timestamp_str = map_of kvs ''timestamp''
      in if truthy_opt timestamp_str then
           (case timestamp_str of
              Some (JStr s) \<Rightarrow>
                (case fromisoformat L (str_replace_Z s) of
                   None \<Rightarrow> Inr valid_prs
                 | Some timestamp \<Rightarrow>
                     if cutoff_time \<le> timestamp
                     then (case map_of kvs ''id'' of
                             None \<Rightarrow> Inl KeyError
                           | Some v \<Rightarrow> set_add_json v valid_prs)
                     else Inr valid_prs)
            | _ \<Rightarrow> Inl AttributeError)
         else Inr valid_prs)"
| "cleanup_entry L cutoff_time (JInt i) valid_prs = Inr (set_add (IntKey i) valid_prs)"
| "cleanup_entry L cutoff_time (JBool b) valid_prs =
     Inr (set_add (IntKey (if b then 1 else 0)) valid_prs)"
| "cleanup_entry L cutoff_time JNull valid_prs = Inr valid_prs"
| "cleanup_entry L cutoff_time (JStr s) valid_prs = Inr valid_prs"
| "cleanup_entry L cutoff_time (JArr es) valid_prs = Inr valid_prs"

fun cleanup_loop ::
  "datetime_lib \<Rightarrow> int \<Rightarrow> json list \<Rightarrow> pr_key list \<Rightarrow> py_exception + pr_key list" where
  "cleanup_loop L cutoff_time [] valid_prs = Inr valid_prs"
| "cleanup_loop L cutoff_time (entry # rest) valid_prs =
     bindE (cleanup_entry L cutoff_time entry valid_prs) (cleanup_loop L cutoff_time rest)"

definition cleanup_try ::
  "datetime_lib \<Rightarrow> int \<Rightarrow> bool \<Rightarrow> save_env \<Rightarrow> int \<Rightarrow> tracker \<Rightarrow> filesystem
     \<Rightarrow> py_exception + (tracker \<times> filesystem)" where
  "cleanup_try L now read_fails se days t fs =
     (case fs (storage_file t) of
        None \<Rightarrow> Inr (t, fs)
      | Some c \<Rightarrow>
          bindE (json_load read_fails c) (\<lambda>data.
          bindE (timedelta_days days) (\<lambda>delta.
          bindE (datetime_sub now delta) (\<lambda>cutoff_time.
          bindE (dict_get_prs data) (\<lambda>prs.
          bindE (py_iter prs) (\<lambda>entries.
          bindE (cleanup_loop L cutoff_time entries []) (\<lambda>valid_prs.
            (let t' = t\<lparr>seen_prs := valid_prs\<rparr>
             in bindE (save_seen_prs L se t' fs) (\<lambda>fs'. Inr (t', fs'))))))))))"

definition cleanup_old_entries ::
  "datetime_lib \<Rightarrow> int \<Rightarrow> bool \<Rightarrow> save_env \<Rightarrow> int \<Rightarrow> tracker \<Rightarrow> filesystem
     \<Rightarrow> py_exception + (tracker \<times> filesystem)" where
  "cleanup_old_entries L now read_fails se days t fs =
     (case cleanup_try L now read_fails se days t fs of
        Inr r \<Rightarrow> Inr r
      | Inl ex \<Rightarrow> Inr (t, fs))"

subsection \<open>A small instance of the library and of the environment\<close>

text \<open>
  A finite table of ISO-8601 strings with their values, enough to run the model on
  examples: the first of December 2023, the first, second and thirty-first of January
  2024 and the first of February 2024, each at midnight.
\<close>

definition sample_fromisoformat :: "string \<Rightarrow> int option" where
  "sample_fromisoformat s =
     (if s = ''2023-12-01T00:00:00+00:00'' then Some 63836985600000000
      else if s = ''2024-01-01T00:00:00+00:00'' then Some 63839664000000000
      else if s = ''2024-01-02T00:00:00+00:00'' then Some 63839750400000000
      else if s = ''2024-01-31T00:00:00+00:00'' then Some 63842256000000000
      else if s = ''2024-02-01T00:00:00+00:00'' then Some 63842342400000000
      else None)"

definition sample_isoformat :: "int \<Rightarrow> string" where
  "sample_isoformat t =
     (if t = 63836985600000000 then ''2023-12-01T00:00:00''
      else if t = 63839664000000000 then ''2024-01-01T00:00:00''
      else if t = 63839750400000000 then ''2024-01-02T00:00:00''
      else if t = 63842256000000000 then ''2024-01-31T00:00:00''
      else if t = 63842342400000000 then ''2024-02-01T00:00:00''
      else ''0001-01-01T00:00:00'')"

definition sample_lib :: datetime_lib where
  "sample_lib = \<lparr>fromisoformat = sample_fromisoformat, isoformat = sample_isoformat\<rparr>"

definition sample_env :: "int \<Rightarrow> save_fault \<Rightarrow> bool \<Rightarrow> save_env" where
  "sample_env now f r = \<lparr>save_now = now, fault = f, remove_fails = r\<rparr>"

definition new_tracker :: "string \<Rightarrow> tracker" where
  "new_tracker path = \<lparr>storage_file = path, seen_prs = []\<rparr>"

subsection \<open>Reading a saved file\<close>

text \<open>
  The timestamps a document pairs with an identifier: those of the records of its
  \<^verbatim>\<open>prs\<close> list whose \<^verbatim>\<open>id\<close> is that identifier.
\<close>

fun record_timestamps :: "pr_key \<Rightarrow> json \<Rightarrow> json list" where
  "record_timestamps k (JObj kvs) =
     (if map_of kvs ''id'' = Some (key_json k)
      then (case map_of kvs ''timestamp'' of Some ts \<Rightarrow> [ts] | None \<Rightarrow> [])
      else [])"
| "record_timestamps k JNull = []"
| "record_timestamps k (JBool b) = []"
| "record_timestamps k (JInt i) = []"
| "record_timestamps k (JStr s) = []"
| "record_timestamps k (JArr es) = []"

fun file_timestamps :: "content option \<Rightarrow> pr_key \<Rightarrow> json list" where
  "file_timestamps (Some (Doc (JObj kvs))) k =
     (case map_of kvs ''prs'' of
        Some (JArr es) \<Rightarrow> concat (map (record_timestamps k) es)
      | _ \<Rightarrow> [])"
| "file_timestamps c k = []"

text \<open>An earlier, empty tracking file.\<close>

definition old_doc :: json where
  "old_doc = JObj [(''version'', JStr ''1.0''),
                   (''last_updated'', JStr ''2023-12-01T00:00:00Z''),
                   (''prs'', JArr [])]"

subsection \<open>Records of the file, as the specification reads them\<close>

text \<open>
  The retention window of thirty days; the integer a bare entry stands for (a Python
  bool is an int); the identifier and the parsed timestamp of an \<open>{id, timestamp}\<close>
  record; a record within the window, and one older than it.
\<close>

definition retention_window :: int where
  "retention_window = 30 * US_PER_DAY"

fun as_int :: "json \<Rightarrow> int option" where
  "as_int (JInt i) = Some i"
| "as_int (JBool b) = Some (if b then 1 else 0)"
| "as_int JNull = None"
| "as_int (JStr s) = None"
| "as_int (JArr es) = None"
| "as_int (JObj kvs) = None"

fun record_timestamp :: "datetime_lib \<Rightarrow> json \<Rightarrow> int option" where
  "record_timestamp L (JObj kvs) =
     (case map_of kvs ''timestamp'' of
        Some (JStr s) \<Rightarrow> if s = [] then None else fromisoformat L (str_replace_Z s)
      | _ \<Rightarrow> None)"
| "record_timestamp L JNull = None"
| "record_timestamp L (JBool b) = None"
| "record_timestamp L (JInt i) = None"
| "record_timestamp L (JStr s) = None"
| "record_timestamp L (JArr es) = None"

fun record_id :: "json \<Rightarrow> int option" where
  "record_id (JObj kvs) = (case map_of kvs ''id'' of Some v \<Rightarrow> as_int v | None \<Rightarrow> None)"
| "record_id JNull = None"
| "record_id (JBool b) = None"
| "record_id (JInt i) = None"
| "record_id (JStr s) = None"
| "record_id (JArr es) = None"

definition fresh_record :: "datetime_lib \<Rightarrow> int \<Rightarrow> json \<Rightarrow> int \<Rightarrow> bool" where
  "fresh_record L now e i =
     (record_id e = Some i \<and>
      (case record_timestamp L e of Some ts \<Rightarrow> now - ts \<le> retention_window | None \<Rightarrow> False))"

definition expired_record :: "datetime_lib \<Rightarrow> int \<Rightarrow> json \<Rightarrow> bool" where
  "expired_record L now e =
     (case record_timestamp L e of Some ts \<Rightarrow> retention_window < now - ts | None \<Rightarrow> False)"

text \<open>The key one pass of the loop adds, when it adds one.\<close>

fun entry_key :: "datetime_lib \<Rightarrow> int \<Rightarrow> json \<Rightarrow> pr_key option" where
  "entry_key L cutoff_time (JObj kvs) =
     (if truthy_opt (map_of kvs ''id'') \<and> truthy_opt (map_of kvs ''timestamp'') then
        (case map_of kvs ''timestamp'' of
           Some (JStr s) \<Rightarrow>
             (case fromisoformat L (str_replace_Z s) of
                None \<Rightarrow> None
              | Some timestamp \<Rightarrow>
                  if cutoff_time \<le> timestamp
                  then (case map_of kvs ''id'' of Some v \<Rightarrow> hash_key v | None \<Rightarrow> None)
                  else None)
         | _ \<Rightarrow> None)
      else None)"
| "entry_key L cutoff_time (JInt i) = Some (IntKey i)"
| "entry_key L cutoff_time (JBool b) = Some (IntKey (if b then 1 else 0))"
| "entry_key L cutoff_time JNull = None"
| "entry_key L cutoff_time (JStr s) = None"
| "entry_key L cutoff_time (JArr es) = None"

text \<open>
  The file of the specification's scenario, read on the thirty-first of January 2024:
  a record 61 days old, a record 29 days old and a bare integer.
\<close>

definition scenario_doc :: json where
  "scenario_doc =
     JObj [(''version'', JStr ''1.0''),
           (''last_updated'', JStr ''2024-01-02T00:00:00Z''),
           (''prs'', JArr [JObj [(''id'', JInt 5), (''timestamp'', JStr ''2023-12-01T00:00:00Z'')],
                           JObj [(''id'', JInt 6), (''timestamp'', JStr ''2024-01-02T00:00:00Z'')],
                           JInt 7])]"

text \<open>A file in the legacy format: a bare integer in the \<^verbatim>\<open>prs\<close> list.\<close>

definition legacy_doc :: json where
  "legacy_doc = JObj [(''prs'', JArr [JInt 7])]"

subsection \<open>Sequences of calls\<close>





section \<open>Basic facts\<close>

lemma temp_path_neq: "temp_path p \<noteq> p"
  by (simp add: temp_path_def)

lemma save_seen_prs_returns: "\<exists>fs'. save_seen_prs L e t fs = Inr fs'"
  by (simp add: save_seen_prs_def split: prod.splits option.splits)

lemma set_add_member: "k \<in> set (set_add k s)"
  by (simp add: set_add_def)

lemma set_set_add: "set (set_add k s) = insert k (set s)"
  by (auto simp: set_add_def)

lemma format_int_small: "\<bar>i\<bar> < 10000 \<Longrightarrow> format_int i = None"
proof -
  have "(10::int) ^ 4 \<le> 10 ^ int_max_str_digits"
    unfolding int_max_str_digits_def by (rule power_increasing) simp_all
  then show "\<bar>i\<bar> < 10000 \<Longrightarrow> format_int i = None"
    by (simp add: format_int_def)
qed

lemma mark_pr_as_seen_seen:
  "IntKey pr_id \<in> set (seen_prs t) \<Longrightarrow> mark_pr_as_seen L se pr_id t fs = (None, t, fs)"
  by (simp add: mark_pr_as_seen_def)

lemma mark_pr_as_seen_new:
  "IntKey pr_id \<notin> set (seen_prs t) \<Longrightarrow>
     save_seen_prs L se (t\<lparr>seen_prs := set_add (IntKey pr_id) (seen_prs t)\<rparr>) fs = Inr fs' \<Longrightarrow>
     mark_pr_as_seen L se pr_id t fs
       = (format_int pr_id, t\<lparr>seen_prs := set_add (IntKey pr_id) (seen_prs t)\<rparr>, fs')"
  by (simp add: mark_pr_as_seen_def)

lemma mark_pr_as_seen_result:
  "\<exists>ex t' fs'. mark_pr_as_seen L se pr_id t fs = (ex, t', fs')
      \<and> (format_int pr_id = None \<longrightarrow> ex = None)
      \<and> storage_file t' = storage_file t
      \<and> set (seen_prs t') = insert (IntKey pr_id) (set (seen_prs t))"
proof (cases "IntKey pr_id \<in> set (seen_prs t)")
  case True
  then show ?thesis by (auto simp: mark_pr_as_seen_seen)
next
  case False
  obtain fs' where
    "save_seen_prs L se (t\<lparr>seen_prs := set_add (IntKey pr_id) (seen_prs t)\<rparr>) fs = Inr fs'"
    using save_seen_prs_returns by blast
  from mark_pr_as_seen_new[OF False this] show ?thesis
    by (simp add: set_set_add)
qed

section \<open>Marking twice\<close>

text \<open>
  Claim C1. For every identifier and every state of the tracker and of the file system,
  a first \<^verbatim>\<open>mark_pr_as_seen(id)\<close> leaves a state in which \<^verbatim>\<open>has_seen_pr(id)\<close> is true, and
  a second \<^verbatim>\<open>mark_pr_as_seen(id)\<close> right after it is a no-op: whatever the environment of
  the second call (clock, failing writes), it returns normally with the tracker and the
  file system unchanged, so nothing is inserted, nothing is written,
  \<^verbatim>\<open>get_seen_count()\<close> is the same and \<^verbatim>\<open>has_seen_pr(id)\<close> is still true. The first call
  returns normally too when the identifier has at most 4300 digits.
\<close>

theorem mark_pr_as_seen_twice:
  "\<exists>ex t1 fs1. mark_pr_as_seen L se pr_id t fs = (ex, t1, fs1)
      \<and> (format_int pr_id = None \<longrightarrow> ex = None)
      \<and> has_seen_pr t1 pr_id
      \<and> (\<forall>se'. \<exists>t2 fs2. mark_pr_as_seen L se' pr_id t1 fs1 = (None, t2, fs2)
            \<and> t2 = t1 \<and> fs2 = fs1
            \<and> get_seen_count t2 = get_seen_count t1 \<and> has_seen_pr t2 pr_id)"
proof -
  obtain ex t1 fs1 where m: "mark_pr_as_seen L se pr_id t fs = (ex, t1, fs1)"
    and e: "format_int pr_id = None \<longrightarrow> ex = None"
    and k: "set (seen_prs t1) = insert (IntKey pr_id) (set (seen_prs t))"
    using mark_pr_as_seen_result[of L se pr_id t fs] by (elim exE conjE)
  from k have h: "IntKey pr_id \<in> set (seen_prs t1)" by simp
  then have "mark_pr_as_seen L se' pr_id t1 fs1 = (None, t1, fs1)" for se'
    by (rule mark_pr_as_seen_seen)
  with m e h show ?thesis
    by (simp add: has_seen_pr_def)
qed

text \<open>
  The scenario of the specification: on an empty store, marking 101 gives a count of 1,
  and marking it again changes nothing.
\<close>

theorem mark_pr_as_seen_twice_witness:
  "\<exists>t1 fs1. mark_pr_as_seen sample_lib (sample_env 63839664000000000 NoFault False) 101
               (new_tracker ''seen_prs.json'') Map.empty = (None, t1, fs1)
      \<and> has_seen_pr t1 101 \<and> get_seen_count t1 = 1
      \<and> (\<forall>se'. mark_pr_as_seen sample_lib se' 101 t1 fs1 = (None, t1, fs1))"
proof -
  have f: "format_int 101 = None"
    by (rule format_int_small) simp
  obtain t1 fs1 where
    a: "mark_pr_as_seen sample_lib (sample_env 63839664000000000 NoFault False) 101
          (new_tracker ''seen_prs.json'') Map.empty = (None, t1, fs1)"
    and b: "has_seen_pr t1 101"
    and c: "\<forall>se'. mark_pr_as_seen sample_lib se' 101 t1 fs1 = (None, t1, fs1)"
    using f mark_pr_as_seen_twice
      [of sample_lib "sample_env 63839664000000000 NoFault False" 101
          "new_tracker ''seen_prs.json''" Map.empty]
    by auto
  from a have "seen_prs t1 = [IntKey 101]"
    by (auto simp: mark_pr_as_seen_def new_tracker_def set_add_def Let_def
             split: sum.splits)
  then have "get_seen_count t1 = 1"
    by (simp add: get_seen_count_def set_len_def)
  with a b c show ?thesis by blast
qed

section \<open>Loading never raises\<close>

text \<open>
  Claim C6. \<^verbatim>\<open>load_seen_prs\<close> returns normally for every tracker, file system, clock
  reading and failure of the read or of the nested save; and when the backing file
  exists but cannot be parsed, it leaves an empty in-memory set and an untouched file
  system.
\<close>

theorem load_seen_prs_never_raises:
  "(\<exists>t' fs'. load_seen_prs L now read_fails se t fs = Inr (t', fs'))
   \<and> load_seen_prs L now read_fails se t (fs(storage_file t \<mapsto> Garbage))
       = Inr (t\<lparr>seen_prs := []\<rparr>, fs(storage_file t \<mapsto> Garbage))"
  by (auto simp: load_seen_prs_def load_try_def json_load_def bindE_def
           split: sum.splits)

theorem load_seen_prs_never_raises_witness:
  "(\<exists>t' fs'. PRTracker sample_lib 63839664000000000 False
                (sample_env 63839664000000000 NoFault False) ''seen_prs.json''
                (Map.empty(''seen_prs.json'' \<mapsto> Garbage)) = Inr (t', fs')
       \<and> seen_prs t' = [] \<and> get_seen_count t' = 0
       \<and> fs' ''seen_prs.json'' = Some Garbage)"
  using load_seen_prs_never_raises
    [of sample_lib 63839664000000000 False "sample_env 63839664000000000 NoFault False"
        "new_tracker ''seen_prs.json''" Map.empty]
  by (simp add: PRTracker_def new_tracker_def get_seen_count_def set_len_def)

section \<open>Facts about saving\<close>

lemma key_json_inj: "key_json k = key_json k' \<longleftrightarrow> k = k'"
  by (cases k; cases k') auto

lemma save_seen_prs_NoFault:
  "save_seen_prs L (e\<lparr>fault := NoFault\<rparr>) t fs =
     Inr ((fs(storage_file t \<mapsto> Doc (save_data L (save_now e) (seen_prs t))))
            (temp_path (storage_file t) := None))"
  using temp_path_neq[of "storage_file t"]
  by (auto simp: save_seen_prs_def save_try_def os_rename_def fun_eq_iff)

lemma save_seen_prs_backing_on_failure:
  "fault e \<noteq> NoFault \<Longrightarrow> save_seen_prs L e t fs = Inr fs' \<Longrightarrow>
     fs' (storage_file t) = fs (storage_file t)"
  using temp_path_neq[of "storage_file t"]
  by (cases "fault e")
     (auto simp: save_seen_prs_def save_try_def save_except_def os_path_exists_def Let_def
           split: if_splits)

lemma save_seen_prs_temp_on_failure:
  "fault e \<noteq> NoFault \<Longrightarrow> save_seen_prs L e t fs = Inr fs' \<Longrightarrow>
     fs' (temp_path (storage_file t)) = None \<or> remove_fails e"
  by (cases "fault e")
     (auto simp: save_seen_prs_def save_try_def save_except_def os_path_exists_def Let_def
           split: if_splits)

lemma set_len_set_add: "k \<notin> set s \<Longrightarrow> set_len (set_add k s) = set_len s + 1"
  by (simp add: set_len_def set_add_def length_remdups_card_conv)

section \<open>Write to a temporary file, then rename\<close>

text \<open>
  Claim C5. \<^verbatim>\<open>save_seen_prs\<close> serialises the whole in-memory set as a document with a
  version tag, a \<^verbatim>\<open>last_updated\<close> timestamp and one \<open>{id, timestamp}\<close> record per
  identifier. Without a failure the backing file holds that document afterwards and the
  temporary file is gone. When the rename raises, the document has been written in full
  to the temporary sibling path, and the backing file is what it was before, both at
  the moment of the failure and after the handler has run.
\<close>

theorem save_seen_prs_write_then_rename:
  "\<exists>data fs_ok fs_fail.
      data = JObj [(''version'', JStr ''1.0''),
                   (''last_updated'', JStr (isoformat L (save_now e) @ ''Z'')),
                   (''prs'', JArr (map (\<lambda>k. JObj [(''id'', key_json k),
                                   (''timestamp'', JStr (isoformat L (save_now e) @ ''Z''))])
                                 (remdups (seen_prs t))))]
    \<and> save_seen_prs L (e\<lparr>fault := NoFault\<rparr>) t fs = Inr fs_ok
    \<and> fs_ok (storage_file t) = Some (Doc data)
    \<and> fs_ok (temp_path (storage_file t)) = None
    \<and> save_try L (e\<lparr>fault := RenameFails\<rparr>) t fs
        = (Some OSError, fs(temp_path (storage_file t) \<mapsto> Doc data))
    \<and> (fs(temp_path (storage_file t) \<mapsto> Doc data)) (storage_file t) = fs (storage_file t)
    \<and> save_seen_prs L (e\<lparr>fault := RenameFails\<rparr>) t fs = Inr fs_fail
    \<and> fs_fail (storage_file t) = fs (storage_file t)"
proof -
  let ?data = "save_data L (save_now e) (seen_prs t)"
  obtain fs_fail where f: "save_seen_prs L (e\<lparr>fault := RenameFails\<rparr>) t fs = Inr fs_fail"
    using save_seen_prs_returns by blast
  have 1: "fs_fail (storage_file t) = fs (storage_file t)"
    using save_seen_prs_backing_on_failure[OF _ f] by simp
  have 2: "save_try L (e\<lparr>fault := RenameFails\<rparr>) t fs
        = (Some OSError, fs(temp_path (storage_file t) \<mapsto> Doc ?data))"
    by (simp add: save_try_def)
  have 3: "(fs(temp_path (storage_file t) \<mapsto> Doc ?data)) (storage_file t) = fs (storage_file t)"
    using temp_path_neq[of "storage_file t"] by simp
  have 4: "?data = JObj [(''version'', JStr ''1.0''),
                   (''last_updated'', JStr (isoformat L (save_now e) @ ''Z'')),
                   (''prs'', JArr (map (\<lambda>k. JObj [(''id'', key_json k),
                                   (''timestamp'', JStr (isoformat L (save_now e) @ ''Z''))])
                                 (remdups (seen_prs t))))]"
    by (simp add: save_data_def prs_record_def Let_def)
  show ?thesis
    using 1 2 3 4 f save_seen_prs_NoFault[of L e t fs] temp_path_neq[of "storage_file t"]
    by (intro exI[of _ ?data]
              exI[of _ "(fs(storage_file t \<mapsto> Doc ?data))(temp_path (storage_file t) := None)"]
              exI[of _ fs_fail]) simp
qed

text \<open>
  Saving the set \<open>{6, 7}\<close> on the first of January 2024 over an earlier file: the new
  document replaces it; with a failing rename the earlier file stays.
\<close>

theorem save_seen_prs_write_then_rename_witness:
  "\<exists>fs_ok fs_fail.
      save_seen_prs sample_lib (sample_env 63839664000000000 NoFault False)
        \<lparr>storage_file = ''seen_prs.json'', seen_prs = [IntKey 6, IntKey 7]\<rparr>
        (Map.empty(''seen_prs.json'' \<mapsto> Doc old_doc)) = Inr fs_ok
    \<and> fs_ok ''seen_prs.json'' =
        Some (Doc (JObj [(''version'', JStr ''1.0''),
                   (''last_updated'', JStr ''2024-01-01T00:00:00Z''),
                   (''prs'', JArr [JObj [(''id'', JInt 6), (''timestamp'', JStr ''2024-01-01T00:00:00Z'')],
                                   JObj [(''id'', JInt 7), (''timestamp'', JStr ''2024-01-01T00:00:00Z'')]])]))
    \<and> fs_ok ''seen_prs.json.tmp'' = None
    \<and> save_seen_prs sample_lib (sample_env 63839664000000000 RenameFails False)
        \<lparr>storage_file = ''seen_prs.json'', seen_prs = [IntKey 6, IntKey 7]\<rparr>
        (Map.empty(''seen_prs.json'' \<mapsto> Doc old_doc)) = Inr fs_fail
    \<and> fs_fail ''seen_prs.json'' = Some (Doc old_doc)"
  using save_seen_prs_write_then_rename
    [of sample_lib "sample_env 63839664000000000 NoFault False"
        "\<lparr>storage_file = ''seen_prs.json'', seen_prs = [IntKey 6, IntKey 7]\<rparr>"
        "Map.empty(''seen_prs.json'' \<mapsto> Doc old_doc)"]
  by (auto simp: sample_env_def sample_lib_def sample_isoformat_def temp_path_def)

section \<open>A failing save inside mark_pr_as_seen\<close>

text \<open>
  Claim C7, as amended. When \<^verbatim>\<open>mark_pr_as_seen(id)\<close> inserts a new identifier and the save
  fails (opening the temporary file, writing it or renaming it raises), the insertion
  stays (in the state the call leaves, \<^verbatim>\<open>has_seen_pr(id)\<close> is true and \<^verbatim>\<open>get_seen_count()\<close>
  has grown by one), the backing file is what it was, and the temporary file is gone
  unless \<^verbatim>\<open>os.remove\<close> itself raised; that failure is swallowed as well and the file
  stays. No error of the save reaches the caller: for an identifier of at most 4300
  digits the call returns normally.
\<close>

theorem mark_pr_as_seen_persist_failure:
  assumes "\<not> has_seen_pr t pr_id" and "fault se \<noteq> NoFault"
  shows "\<exists>ex t' fs'. mark_pr_as_seen L se pr_id t fs = (ex, t', fs')
           \<and> (format_int pr_id = None \<longrightarrow> ex = None)
           \<and> has_seen_pr t' pr_id
           \<and> set (seen_prs t') = insert (IntKey pr_id) (set (seen_prs t))
           \<and> get_seen_count t' = get_seen_count t + 1
           \<and> fs' (storage_file t) = fs (storage_file t)
           \<and> (fs' (temp_path (storage_file t)) = None \<or> remove_fails se)"
proof -
  let ?t' = "t\<lparr>seen_prs := set_add (IntKey pr_id) (seen_prs t)\<rparr>"
  obtain fs' where s: "save_seen_prs L se ?t' fs = Inr fs'"
    using save_seen_prs_returns by blast
  have n: "IntKey pr_id \<notin> set (seen_prs t)"
    using assms(1) by (simp add: has_seen_pr_def)
  have m: "mark_pr_as_seen L se pr_id t fs = (format_int pr_id, ?t', fs')"
    using mark_pr_as_seen_new[OF n s] .
  have b: "fs' (storage_file t) = fs (storage_file t)"
    using save_seen_prs_backing_on_failure[OF assms(2) s] by simp
  have c: "fs' (temp_path (storage_file t)) = None \<or> remove_fails se"
    using save_seen_prs_temp_on_failure[OF assms(2) s] by simp
  have d: "get_seen_count ?t' = get_seen_count t + 1"
    using n by (simp add: get_seen_count_def set_len_set_add)
  show ?thesis
    using m b c d by (simp add: has_seen_pr_def set_set_add)
qed

text \<open>
  For a longer identifier the message of line 116 cannot be formatted: the
  \<^verbatim>\<open>ValueError\<close> of the f-string leaves the call, after the insertion and the save.
\<close>

lemma mark_pr_as_seen_raises_for_long_id:
  assumes "\<not> has_seen_pr t pr_id" and "10 ^ int_max_str_digits \<le> \<bar>pr_id\<bar>"
  shows "\<exists>t' fs'. mark_pr_as_seen L se pr_id t fs = (Some ValueError, t', fs')
           \<and> has_seen_pr t' pr_id"
proof -
  have f: "format_int pr_id = Some ValueError"
    using assms(2) by (simp add: format_int_def)
  obtain fs' where
    "save_seen_prs L se (t\<lparr>seen_prs := set_add (IntKey pr_id) (seen_prs t)\<rparr>) fs = Inr fs'"
    using save_seen_prs_returns by blast
  with assms(1) f show ?thesis
    by (simp add: mark_pr_as_seen_def has_seen_pr_def set_add_member)
qed

text \<open>Marking 5 on an empty tracker while \<^verbatim>\<open>json.dump\<close> fails.\<close>

theorem mark_pr_as_seen_persist_failure_witness:
  "\<not> has_seen_pr (new_tracker ''seen_prs.json'') 5
   \<and> fault (sample_env 63839664000000000 DumpFails False) \<noteq> NoFault
   \<and> (\<exists>t' fs'. mark_pr_as_seen sample_lib (sample_env 63839664000000000 DumpFails False) 5
                   (new_tracker ''seen_prs.json'')
                   (Map.empty(''seen_prs.json'' \<mapsto> Doc old_doc)) = (None, t', fs')
          \<and> has_seen_pr t' 5 \<and> get_seen_count t' = 1
          \<and> fs' ''seen_prs.json'' = Some (Doc old_doc)
          \<and> fs' ''seen_prs.json.tmp'' = None)"
proof -
  have h1: "\<not> has_seen_pr (new_tracker ''seen_prs.json'') 5"
    by (simp add: has_seen_pr_def new_tracker_def)
  have h2: "fault (sample_env 63839664000000000 DumpFails False) \<noteq> NoFault"
    by (simp add: sample_env_def)
  have f: "format_int 5 = None"
    by (rule format_int_small) simp
  show ?thesis
    using h1 h2 f mark_pr_as_seen_persist_failure[OF h1 h2, of sample_lib
        "Map.empty(''seen_prs.json'' \<mapsto> Doc old_doc)"]
    by (auto simp: new_tracker_def sample_env_def get_seen_count_def set_len_def temp_path_def)
qed

text \<open>
  The claim as stated fails where the rename raises and \<^verbatim>\<open>os.remove\<close> raises too: the
  call returns with the temporary file still in place.
\<close>

theorem temp_file_left_counterexample:
  "mark_pr_as_seen sample_lib (sample_env 63839664000000000 RenameFails True) 5
     (new_tracker ''seen_prs.json'') Map.empty
   = (None, \<lparr>storage_file = ''seen_prs.json'', seen_prs = [IntKey 5]\<rparr>,
          Map.empty(''seen_prs.json.tmp'' \<mapsto>
            Doc (JObj [(''version'', JStr ''1.0''),
                   (''last_updated'', JStr ''2024-01-01T00:00:00Z''),
                   (''prs'', JArr [JObj [(''id'', JInt 5), (''timestamp'', JStr ''2024-01-01T00:00:00Z'')]])])))"
  by (simp add: mark_pr_as_seen_def new_tracker_def sample_env_def set_add_def
        save_seen_prs_def save_try_def save_except_def os_path_exists_def temp_path_def
        save_data_def prs_record_def sample_lib_def sample_isoformat_def Let_def
        format_int_small)

section \<open>Timestamps in the saved file\<close>

lemma record_timestamps_prs_record:
  "record_timestamps k (prs_record ct k') = (if k' = k then [JStr ct] else [])"
  by (auto simp: prs_record_def key_json_inj)

lemma concat_record_timestamps:
  "distinct ys \<Longrightarrow>
     concat (map (record_timestamps k) (map (prs_record ct) ys))
       = (if k \<in> set ys then [JStr ct] else [])"
  by (induction ys) (auto simp: record_timestamps_prs_record)

lemma file_timestamps_save_data:
  "file_timestamps (Some (Doc (save_data L now s))) k
     = (if k \<in> set s then [JStr (isoformat L now @ ''Z'')] else [])"
  using concat_record_timestamps[of "remdups s" k "isoformat L now @ ''Z''"]
  by (simp add: save_data_def Let_def)

text \<open>
  Claim C4, as amended. The tracker keeps no time per identifier in memory. A save that
  succeeds pairs every identifier of the in-memory set with exactly one timestamp, the
  time of that save, and pairs no other identifier with any; a save that fails leaves the
  backing file as it was. Marking an identifier that is already seen performs no save
  and leaves tracker and file system unchanged; marking a new one saves the enlarged
  set (and returns normally when the identifier has at most 4300 digits).
\<close>

theorem save_seen_prs_stamps_every_id:
  "\<exists>fs'. save_seen_prs L e t fs = Inr fs'
     \<and> (if fault e = NoFault
        then \<forall>k. file_timestamps (fs' (storage_file t)) k
                  = (if k \<in> set (seen_prs t) then [JStr (isoformat L (save_now e) @ ''Z'')] else [])
        else fs' (storage_file t) = fs (storage_file t))
     \<and> (if has_seen_pr t pr_id
        then \<forall>se. mark_pr_as_seen L se pr_id t fs = (None, t, fs)
        else \<forall>se. \<exists>ex fs''. mark_pr_as_seen L se pr_id t fs
                = (ex, t\<lparr>seen_prs := set_add (IntKey pr_id) (seen_prs t)\<rparr>, fs'')
              \<and> (format_int pr_id = None \<longrightarrow> ex = None)
              \<and> save_seen_prs L se (t\<lparr>seen_prs := set_add (IntKey pr_id) (seen_prs t)\<rparr>) fs
                  = Inr fs'')"
proof -
  obtain fs' where s: "save_seen_prs L e t fs = Inr fs'"
    using save_seen_prs_returns by blast
  have a: "fault e \<noteq> NoFault \<Longrightarrow> fs' (storage_file t) = fs (storage_file t)"
    using save_seen_prs_backing_on_failure[OF _ s] by simp
  have b: "file_timestamps (fs' (storage_file t)) k
             = (if k \<in> set (seen_prs t) then [JStr (isoformat L (save_now e) @ ''Z'')] else [])"
    if "fault e = NoFault" for k
  proof -
    have "e\<lparr>fault := NoFault\<rparr> = e" using that by simp
    then have "fs' (storage_file t) = Some (Doc (save_data L (save_now e) (seen_prs t)))"
      using s save_seen_prs_NoFault[of L e t fs] temp_path_neq[of "storage_file t"] by auto
    then show ?thesis by (simp only: file_timestamps_save_data)
  qed
  have c: "has_seen_pr t pr_id \<Longrightarrow> mark_pr_as_seen L se pr_id t fs = (None, t, fs)" for se
    by (simp add: mark_pr_as_seen_seen has_seen_pr_def)
  have d: "\<not> has_seen_pr t pr_id \<Longrightarrow> \<exists>ex fs''. mark_pr_as_seen L se pr_id t fs
                = (ex, t\<lparr>seen_prs := set_add (IntKey pr_id) (seen_prs t)\<rparr>, fs'')
              \<and> (format_int pr_id = None \<longrightarrow> ex = None)
              \<and> save_seen_prs L se (t\<lparr>seen_prs := set_add (IntKey pr_id) (seen_prs t)\<rparr>) fs
                  = Inr fs''" for se
  proof -
    assume n: "\<not> has_seen_pr t pr_id"
    obtain fs'' where
      sv: "save_seen_prs L se (t\<lparr>seen_prs := set_add (IntKey pr_id) (seen_prs t)\<rparr>) fs = Inr fs''"
      using save_seen_prs_returns by blast
    from n have "IntKey pr_id \<notin> set (seen_prs t)" by (simp add: has_seen_pr_def)
    from mark_pr_as_seen_new[OF this sv] sv show ?thesis by simp
  qed
  show ?thesis
    using s a b c d by auto
qed

text \<open>Saving \<open>{5, 6}\<close> on the second of January 2024, then marking 5 again.\<close>

theorem save_seen_prs_stamps_every_id_witness:
  "\<exists>fs'. save_seen_prs sample_lib (sample_env 63839750400000000 NoFault False)
            \<lparr>storage_file = ''seen_prs.json'', seen_prs = [IntKey 5, IntKey 6]\<rparr>
            (Map.empty(''seen_prs.json'' \<mapsto> Doc old_doc)) = Inr fs'
     \<and> file_timestamps (fs' ''seen_prs.json'') (IntKey 5) = [JStr ''2024-01-02T00:00:00Z'']
     \<and> file_timestamps (fs' ''seen_prs.json'') (IntKey 6) = [JStr ''2024-01-02T00:00:00Z'']
     \<and> file_timestamps (fs' ''seen_prs.json'') (IntKey 7) = []
     \<and> mark_pr_as_seen sample_lib (sample_env 63842256000000000 NoFault False) 5
            \<lparr>storage_file = ''seen_prs.json'', seen_prs = [IntKey 5, IntKey 6]\<rparr> fs'
         = (None, \<lparr>storage_file = ''seen_prs.json'', seen_prs = [IntKey 5, IntKey 6]\<rparr>, fs')"
proof -
  obtain fs' where
    a: "save_seen_prs sample_lib (sample_env 63839750400000000 NoFault False)
            \<lparr>storage_file = ''seen_prs.json'', seen_prs = [IntKey 5, IntKey 6]\<rparr>
            (Map.empty(''seen_prs.json'' \<mapsto> Doc old_doc)) = Inr fs'"
    and b: "\<forall>k. file_timestamps (fs' ''seen_prs.json'') k
                  = (if k \<in> set [IntKey 5, IntKey 6] then [JStr ''2024-01-02T00:00:00Z''] else [])"
    using save_seen_prs_stamps_every_id
      [of sample_lib "sample_env 63839750400000000 NoFault False"
          "\<lparr>storage_file = ''seen_prs.json'', seen_prs = [IntKey 5, IntKey 6]\<rparr>"
          "Map.empty(''seen_prs.json'' \<mapsto> Doc old_doc)" 5]
    by (auto simp: sample_env_def sample_lib_def sample_isoformat_def)
  have c: "mark_pr_as_seen sample_lib (sample_env 63842256000000000 NoFault False) 5
            \<lparr>storage_file = ''seen_prs.json'', seen_prs = [IntKey 5, IntKey 6]\<rparr> fs'
         = (None, \<lparr>storage_file = ''seen_prs.json'', seen_prs = [IntKey 5, IntKey 6]\<rparr>, fs')"
    using save_seen_prs_stamps_every_id
      [of sample_lib "sample_env 63839750400000000 NoFault False"
          "\<lparr>storage_file = ''seen_prs.json'', seen_prs = [IntKey 5, IntKey 6]\<rparr>"
          fs' 5]
    by (auto simp: has_seen_pr_def)
  from a b c show ?thesis by auto
qed

text \<open>
  The claim as stated fails: 5 is marked on the first of January and the file pairs it
  with that day; 6 is marked on the second, and the file now pairs 5 with the second.
\<close>

theorem timestamp_rewritten_counterexample:
  "mark_pr_as_seen sample_lib (sample_env 63839664000000000 NoFault False) 5
     (new_tracker ''seen_prs.json'') Map.empty
   = (None, \<lparr>storage_file = ''seen_prs.json'', seen_prs = [IntKey 5]\<rparr>,
          Map.empty(''seen_prs.json'' \<mapsto> Doc (save_data sample_lib 63839664000000000 [IntKey 5])))
   \<and> file_timestamps (Some (Doc (save_data sample_lib 63839664000000000 [IntKey 5]))) (IntKey 5)
       = [JStr ''2024-01-01T00:00:00Z'']
   \<and> mark_pr_as_seen sample_lib (sample_env 63839750400000000 NoFault False) 6
       \<lparr>storage_file = ''seen_prs.json'', seen_prs = [IntKey 5]\<rparr>
       (Map.empty(''seen_prs.json'' \<mapsto> Doc (save_data sample_lib 63839664000000000 [IntKey 5])))
     = (None, \<lparr>storage_file = ''seen_prs.json'', seen_prs = [IntKey 5, IntKey 6]\<rparr>,
            Map.empty(''seen_prs.json'' \<mapsto>
               Doc (save_data sample_lib 63839750400000000 [IntKey 5, IntKey 6])))
   \<and> file_timestamps
        (Some (Doc (save_data sample_lib 63839750400000000 [IntKey 5, IntKey 6]))) (IntKey 5)
       = [JStr ''2024-01-02T00:00:00Z'']"
  by (simp add: mark_pr_as_seen_def new_tracker_def sample_env_def set_add_def
        save_seen_prs_def save_try_def os_rename_def temp_path_def fun_eq_iff
        file_timestamps_save_data sample_lib_def sample_isoformat_def Let_def
        format_int_small)

section \<open>Facts about loading\<close>

lemma bindE_Inr_iff: "bindE m f = Inr r \<longleftrightarrow> (\<exists>v. m = Inr v \<and> f v = Inr r)"
  by (cases m) (auto simp: bindE_def)

lemma load_entry_result:
  "load_entry L c e v = Inr v' \<Longrightarrow>
     v' = (case entry_key L c e of Some k \<Rightarrow> set_add k v | None \<Rightarrow> v)"
  by (cases e)
     (auto simp: Let_def set_add_json_def split: if_splits option.splits json.splits)

lemma load_loop_set:
  "load_loop L c es v = Inr r \<Longrightarrow>
     set r = set v \<union> {k. \<exists>e \<in> set es. entry_key L c e = Some k}"
proof (induction es arbitrary: v)
  case Nil
  then show ?case by simp
next
  case (Cons e es)
  from Cons.prems obtain v' where
    1: "load_entry L c e v = Inr v'" and 2: "load_loop L c es v' = Inr r"
    by (auto simp: bindE_Inr_iff)
  have "set v' = set v \<union> {k. entry_key L c e = Some k}"
    using load_entry_result[OF 1] by (auto simp: set_set_add split: option.splits)
  with Cons.IH[OF 2] show ?case by auto
qed

lemma set_len_set_add_le: "set_len (set_add k v) \<le> set_len v + 1"
  by (simp add: set_len_def set_add_def length_remdups_card_conv card_insert_if)

lemma load_loop_len:
  "load_loop L c es v = Inr r \<Longrightarrow> set_len r \<le> set_len v + length es"
proof (induction es arbitrary: v)
  case Nil
  then show ?case by simp
next
  case (Cons e es)
  from Cons.prems obtain v' where
    1: "load_entry L c e v = Inr v'" and 2: "load_loop L c es v' = Inr r"
    by (auto simp: bindE_Inr_iff)
  have "set_len v' \<le> set_len v + 1"
    using load_entry_result[OF 1] set_len_set_add_le by (auto split: option.splits)
  with Cons.IH[OF 2] show ?case by simp
qed

lemma load_loop_len_strict:
  "load_loop L c es v = Inr r \<Longrightarrow> \<exists>e \<in> set es. entry_key L c e = None \<Longrightarrow>
     set_len r < set_len v + length es"
proof (induction es arbitrary: v)
  case Nil
  then show ?case by simp
next
  case (Cons e es)
  from Cons.prems obtain v' where
    1: "load_entry L c e v = Inr v'" and 2: "load_loop L c es v' = Inr r"
    by (auto simp: bindE_Inr_iff)
  have le: "set_len v' \<le> set_len v + 1"
    using load_entry_result[OF 1] set_len_set_add_le by (auto split: option.splits)
  show ?case
  proof (cases "entry_key L c e = None")
    case True
    then have "v' = v" using load_entry_result[OF 1] by simp
    with load_loop_len[OF 2] show ?thesis by simp
  next
    case False
    with Cons.prems(2) have "\<exists>e \<in> set es. entry_key L c e = None" by auto
    from Cons.IH[OF 2 this] le show ?thesis by simp
  qed
qed

lemma hash_key_IntKey: "hash_key v = Some (IntKey i) \<longleftrightarrow> as_int v = Some i"
  by (cases v) auto

lemma as_int_truthy: "as_int v = Some i \<Longrightarrow> i \<noteq> 0 \<Longrightarrow> truthy v"
  by (cases v) (auto split: if_splits)

lemma entry_key_IntKey:
  assumes "i \<noteq> 0"
  shows "entry_key L (now - retention_window) e = Some (IntKey i)
           \<longleftrightarrow> as_int e = Some i \<or> fresh_record L now e i"
proof (cases e)
  case (JObj kvs)
  show ?thesis
  proof
    assume "entry_key L (now - retention_window) e = Some (IntKey i)"
    then show "as_int e = Some i \<or> fresh_record L now e i"
      using JObj
      by (auto simp: fresh_record_def hash_key_IntKey
               split: if_splits option.splits json.splits)
  next
    assume "as_int e = Some i \<or> fresh_record L now e i"
    then have f: "fresh_record L now e i" using JObj by simp
    then obtain v s ts where
      v: "map_of kvs ''id'' = Some v" "as_int v = Some i"
      and s: "map_of kvs ''timestamp'' = Some (JStr s)" "s \<noteq> []"
        "fromisoformat L (str_replace_Z s) = Some ts" "now - ts \<le> retention_window"
      using JObj
      by (auto simp: fresh_record_def split: option.splits json.splits if_splits)
    have "truthy v" using as_int_truthy[OF v(2) assms] .
    then show "entry_key L (now - retention_window) e = Some (IntKey i)"
      using JObj v s by (simp add: hash_key_IntKey)
  qed
qed (auto simp: fresh_record_def)

lemma expired_record_entry_key:
  "expired_record L now e \<Longrightarrow> entry_key L (now - retention_window) e = None"
  by (cases e) (auto simp: expired_record_def split: option.splits json.splits if_splits)

text \<open>The definitions to unfold when the model is run on an example.\<close>

lemmas eval_defs =
  load_try_def load_seen_prs_def PRTracker_def new_tracker_def json_load_def
  timedelta_days_def datetime_sub_def US_PER_DAY_def MAX_US_def bindE_def
  str_replace_Z_def set_add_json_def set_add_def set_len_def
  save_seen_prs_def save_try_def save_except_def os_rename_def os_path_exists_def
  temp_path_def save_data_def prs_record_def
  sample_lib_def sample_fromisoformat_def sample_isoformat_def sample_env_def
  mark_pr_as_seen_def has_seen_pr_def get_seen_count_def
  cleanup_try_def cleanup_old_entries_def Let_def format_int_small

lemma save_seen_prs_ok:
  "fault e = NoFault \<Longrightarrow> save_seen_prs L e t fs =
     Inr ((fs(storage_file t \<mapsto> Doc (save_data L (save_now e) (seen_prs t))))
            (temp_path (storage_file t) := None))"
  using temp_path_neq[of "storage_file t"]
  by (auto simp: save_seen_prs_def save_try_def os_rename_def fun_eq_iff)

lemma load_try_Doc:
  assumes "fs (storage_file t) = Some (Doc (JObj kvs))"
    and "map_of kvs ''prs'' = Some (JArr entries)"
    and "load_try L now read_fails se t fs = Inr (t', fs')"
  shows "\<exists>valid. load_loop L (now - retention_window) entries [] = Inr valid
           \<and> t' = t\<lparr>seen_prs := valid\<rparr>
           \<and> (if set_len valid \<noteq> length entries
               then save_seen_prs L se t' fs = Inr fs' else fs' = fs)"
  using assms
  by (auto simp: load_try_def json_load_def timedelta_days_def datetime_sub_def
                 retention_window_def bindE_Inr_iff Let_def
           split: if_splits)

section \<open>What a load keeps\<close>

text \<open>
  Claim C3, as amended. After \<^verbatim>\<open>load_seen_prs\<close> has read an existing, parseable backing
  file without raising, the in-memory set contains a non-zero integer identifier if and
  only if the file has it as a bare integer or in an \<open>{id, timestamp}\<close> record with
  \<open>now - timestamp \<le> 30 days\<close> (a record exactly thirty days old is kept); it contains
  every bare integer unconditionally; and whenever the set is smaller than the list of
  entries, in particular whenever an entry was dropped for its age, \<^verbatim>\<open>save_seen_prs\<close> is
  called at once on the pruned set, which then is the content of the backing file
  unless that save fails. When set and list have the same size nothing is written.
\<close>

theorem load_seen_prs_retention:
  assumes bfile: "fs (storage_file t) = Some (Doc (JObj kvs))"
    and prs: "map_of kvs ''prs'' = Some (JArr entries)"
    and ok: "load_try L now read_fails se t fs = Inr (t', fs')"
  shows "load_seen_prs L now read_fails se t fs = Inr (t', fs')
    \<and> (\<forall>i. i \<noteq> 0 \<longrightarrow>
          (has_seen_pr t' i \<longleftrightarrow> (\<exists>e \<in> set entries. as_int e = Some i \<or> fresh_record L now e i)))
    \<and> (\<forall>e \<in> set entries. \<forall>i. as_int e = Some i \<longrightarrow> has_seen_pr t' i)
    \<and> ((\<exists>e \<in> set entries. expired_record L now e) \<longrightarrow> get_seen_count t' < length entries)
    \<and> (if get_seen_count t' \<noteq> length entries
        then save_seen_prs L se t' fs = Inr fs'
           \<and> (fault se = NoFault \<longrightarrow>
                fs' (storage_file t) = Some (Doc (save_data L (save_now se) (seen_prs t'))))
        else fs' = fs)"
proof -
  let ?c = "now - retention_window"
  obtain valid where
    loop: "load_loop L ?c entries [] = Inr valid"
    and t': "t' = t\<lparr>seen_prs := valid\<rparr>"
    and sv: "if set_len valid \<noteq> length entries
             then save_seen_prs L se t' fs = Inr fs' else fs' = fs"
    using load_try_Doc[OF bfile prs ok] by blast
  have keys: "set valid = {k. \<exists>e \<in> set entries. entry_key L ?c e = Some k}"
    using load_loop_set[OF loop] by simp
  have 1: "load_seen_prs L now read_fails se t fs = Inr (t', fs')"
    using ok by (simp add: load_seen_prs_def)
  have 2: "has_seen_pr t' i \<longleftrightarrow> (\<exists>e \<in> set entries. as_int e = Some i \<or> fresh_record L now e i)"
    if "i \<noteq> 0" for i
    using keys t' entry_key_IntKey[OF that, of L now] by (auto simp: has_seen_pr_def)
  have 3: "has_seen_pr t' i" if "e \<in> set entries" "as_int e = Some i" for e i
  proof -
    have "entry_key L ?c e = Some (IntKey i)" using that(2) by (cases e) auto
    with that(1) keys t' show ?thesis by (auto simp: has_seen_pr_def)
  qed
  have 4: "get_seen_count t' < length entries" if "\<exists>e \<in> set entries. expired_record L now e"
  proof -
    from that have "\<exists>e \<in> set entries. entry_key L ?c e = None"
      using expired_record_entry_key by blast
    from load_loop_len_strict[OF loop this] t' show ?thesis
      by (simp add: get_seen_count_def set_len_def)
  qed
  have 5: "fs' (storage_file t) = Some (Doc (save_data L (save_now se) (seen_prs t')))"
    if "get_seen_count t' \<noteq> length entries" "fault se = NoFault"
  proof -
    have "save_seen_prs L se t' fs =
       Inr ((fs(storage_file t' \<mapsto> Doc (save_data L (save_now se) (seen_prs t'))))
            (temp_path (storage_file t') := None))"
      using save_seen_prs_ok[OF that(2)] .
    moreover have "save_seen_prs L se t' fs = Inr fs'"
      using sv that(1) t' by (simp add: get_seen_count_def)
    ultimately show ?thesis
      using temp_path_neq[of "storage_file t"] t' by auto
  qed
  have 6: "if get_seen_count t' \<noteq> length entries
        then save_seen_prs L se t' fs = Inr fs' else fs' = fs"
    using sv t' by (simp add: get_seen_count_def)
  show ?thesis
    using 1 2 3 4 5 6 by (simp split: if_splits)
qed


text \<open>
  The scenario of the specification: 5 is dropped, 6 and 7 are kept, and the file is
  rewritten with 6 and 7 only.
\<close>

theorem load_seen_prs_retention_witness:
  "(Map.empty(''seen_prs.json'' \<mapsto> Doc scenario_doc)) (storage_file (new_tracker ''seen_prs.json''))
     = Some (Doc scenario_doc)
   \<and> load_try sample_lib 63842256000000000 False (sample_env 63842256000000000 NoFault False)
        (new_tracker ''seen_prs.json'') (Map.empty(''seen_prs.json'' \<mapsto> Doc scenario_doc))
      = Inr (\<lparr>storage_file = ''seen_prs.json'', seen_prs = [IntKey 6, IntKey 7]\<rparr>,
             Map.empty(''seen_prs.json'' \<mapsto>
                Doc (save_data sample_lib 63842256000000000 [IntKey 6, IntKey 7])))
   \<and> load_seen_prs sample_lib 63842256000000000 False (sample_env 63842256000000000 NoFault False)
        (new_tracker ''seen_prs.json'') (Map.empty(''seen_prs.json'' \<mapsto> Doc scenario_doc))
      = Inr (\<lparr>storage_file = ''seen_prs.json'', seen_prs = [IntKey 6, IntKey 7]\<rparr>,
             Map.empty(''seen_prs.json'' \<mapsto>
                Doc (save_data sample_lib 63842256000000000 [IntKey 6, IntKey 7])))
   \<and> \<not> has_seen_pr \<lparr>storage_file = ''seen_prs.json'', seen_prs = [IntKey 6, IntKey 7]\<rparr> 5
   \<and> has_seen_pr \<lparr>storage_file = ''seen_prs.json'', seen_prs = [IntKey 6, IntKey 7]\<rparr> 6
   \<and> has_seen_pr \<lparr>storage_file = ''seen_prs.json'', seen_prs = [IntKey 6, IntKey 7]\<rparr> 7"
proof -
  let ?fs = "Map.empty(''seen_prs.json'' \<mapsto> Doc scenario_doc)"
  let ?t' = "\<lparr>storage_file = ''seen_prs.json'', seen_prs = [IntKey 6, IntKey 7]\<rparr>"
  let ?fs' = "Map.empty(''seen_prs.json'' \<mapsto>
                Doc (save_data sample_lib 63842256000000000 [IntKey 6, IntKey 7]))"
  have h1: "?fs (storage_file (new_tracker ''seen_prs.json'')) =
      Some (Doc (JObj [(''version'', JStr ''1.0''),
           (''last_updated'', JStr ''2024-01-02T00:00:00Z''),
           (''prs'', JArr [JObj [(''id'', JInt 5), (''timestamp'', JStr ''2023-12-01T00:00:00Z'')],
                           JObj [(''id'', JInt 6), (''timestamp'', JStr ''2024-01-02T00:00:00Z'')],
                           JInt 7])]))"
    by (simp add: new_tracker_def scenario_doc_def)
  have h2: "map_of [(''version'', JStr ''1.0''),
           (''last_updated'', JStr ''2024-01-02T00:00:00Z''),
           (''prs'', JArr [JObj [(''id'', JInt 5), (''timestamp'', JStr ''2023-12-01T00:00:00Z'')],
                           JObj [(''id'', JInt 6), (''timestamp'', JStr ''2024-01-02T00:00:00Z'')],
                           JInt 7])] ''prs'' =
       Some (JArr [JObj [(''id'', JInt 5), (''timestamp'', JStr ''2023-12-01T00:00:00Z'')],
                           JObj [(''id'', JInt 6), (''timestamp'', JStr ''2024-01-02T00:00:00Z'')],
                           JInt 7])"
    by simp
  have h3: "load_try sample_lib 63842256000000000 False (sample_env 63842256000000000 NoFault False)
        (new_tracker ''seen_prs.json'') ?fs = Inr (?t', ?fs')"
    by (simp add: eval_defs scenario_doc_def fun_eq_iff)
  show ?thesis
    using h1 h3 load_seen_prs_retention[OF h1 h2 h3]
    by (simp add: scenario_doc_def has_seen_pr_def)
qed

text \<open>
  The claim as stated fails at the boundary: a record stamped on the first of January
  2024 and read on the thirty-first is exactly thirty days old, so \<open>now - timestamp\<close> is
  not below the window, and the identifier is kept.
\<close>

theorem retention_boundary_counterexample:
  "PRTracker sample_lib 63842256000000000 False (sample_env 63842256000000000 NoFault False)
     ''seen_prs.json''
     (Map.empty(''seen_prs.json'' \<mapsto> Doc (save_data sample_lib 63839664000000000 [IntKey 5])))
   = Inr (\<lparr>storage_file = ''seen_prs.json'', seen_prs = [IntKey 5]\<rparr>,
          Map.empty(''seen_prs.json'' \<mapsto> Doc (save_data sample_lib 63839664000000000 [IntKey 5])))
   \<and> has_seen_pr \<lparr>storage_file = ''seen_prs.json'', seen_prs = [IntKey 5]\<rparr> 5
   \<and> record_timestamp sample_lib
        (JObj [(''id'', JInt 5), (''timestamp'', JStr ''2024-01-01T00:00:00Z'')])
       = Some 63839664000000000
   \<and> save_data sample_lib 63839664000000000 [IntKey 5]
       = JObj [(''version'', JStr ''1.0''),
               (''last_updated'', JStr ''2024-01-01T00:00:00Z''),
               (''prs'', JArr [JObj [(''id'', JInt 5), (''timestamp'', JStr ''2024-01-01T00:00:00Z'')]])]
   \<and> \<not> (63842256000000000 - 63839664000000000 < retention_window)"
  by (simp add: eval_defs retention_window_def fun_eq_iff)

section \<open>Facts about cleanup_old_entries\<close>

lemma cleanup_entry_bare:
  "as_int e = Some i \<Longrightarrow> cleanup_entry L c e v = Inr (set_add (IntKey i) v)"
  by (cases e) auto

lemma cleanup_entry_mono:
  "cleanup_entry L c e v = Inr v' \<Longrightarrow> set v \<subseteq> set v'"
  by (cases e)
     (auto simp: Let_def set_add_json_def set_set_add
           split: if_splits option.splits json.splits)

lemma cleanup_loop_mono:
  "cleanup_loop L c es v = Inr r \<Longrightarrow> set v \<subseteq> set r"
proof (induction es arbitrary: v)
  case Nil
  then show ?case by simp
next
  case (Cons e es)
  from Cons.prems obtain v' where
    1: "cleanup_entry L c e v = Inr v'" and 2: "cleanup_loop L c es v' = Inr r"
    by (auto simp: bindE_Inr_iff)
  from cleanup_entry_mono[OF 1] Cons.IH[OF 2] show ?case by blast
qed

lemma cleanup_loop_bare:
  "cleanup_loop L c es v = Inr r \<Longrightarrow> e \<in> set es \<Longrightarrow> as_int e = Some i \<Longrightarrow>
     IntKey i \<in> set r"
proof (induction es arbitrary: v)
  case Nil
  then show ?case by simp
next
  case (Cons x es)
  from Cons.prems(1) obtain v' where
    1: "cleanup_entry L c x v = Inr v'" and 2: "cleanup_loop L c es v' = Inr r"
    by (auto simp: bindE_Inr_iff)
  show ?case
  proof (cases "e = x")
    case True
    then have "v' = set_add (IntKey i) v"
      using 1 cleanup_entry_bare[OF Cons.prems(3), of L c v] by simp
    then have "IntKey i \<in> set v'" by (simp add: set_set_add)
    with cleanup_loop_mono[OF 2] show ?thesis by blast
  next
    case False
    with Cons.prems(2) have "e \<in> set es" by simp
    from Cons.IH[OF 2 this Cons.prems(3)] show ?thesis .
  qed
qed

lemma cleanup_try_Doc:
  assumes "fs (storage_file t) = Some (Doc (JObj kvs))"
    and "map_of kvs ''prs'' = Some (JArr entries)"
    and "cleanup_try L now read_fails se days t fs = Inr (t', fs')"
  shows "\<exists>valid. cleanup_loop L (now - days * US_PER_DAY) entries [] = Inr valid
           \<and> t' = t\<lparr>seen_prs := valid\<rparr>
           \<and> save_seen_prs L se t' fs = Inr fs'"
  using assms
  by (auto simp: cleanup_try_def json_load_def timedelta_days_def datetime_sub_def
                 bindE_Inr_iff Let_def
           split: if_splits)

section \<open>Legacy entries\<close>

text \<open>
  Claim C8, as amended. An identifier stored as a bare integer is kept by every single
  \<^verbatim>\<open>load_seen_prs\<close> and every single \<^verbatim>\<open>cleanup_old_entries\<close> that reads the file without
  raising, whatever the clock reads and whatever \<^verbatim>\<open>days\<close> is: a bare integer has no age.
  (Once a save has rewritten the file, the identifier is an \<open>{id, timestamp}\<close> record
  stamped with the time of that save, and later reads treat it as one.)
\<close>

theorem legacy_entries_kept_by_one_read:
  assumes "fs (storage_file t) = Some (Doc (JObj kvs))"
    and "map_of kvs ''prs'' = Some (JArr entries)"
    and "JInt i \<in> set entries"
  shows "(load_try L now read_fails se t fs = Inr (t', fs') \<longrightarrow>
            load_seen_prs L now read_fails se t fs = Inr (t', fs') \<and> has_seen_pr t' i)
       \<and> (cleanup_try L now' read_fails' se' days t fs = Inr (t'', fs'') \<longrightarrow>
            cleanup_old_entries L now' read_fails' se' days t fs = Inr (t'', fs'')
            \<and> has_seen_pr t'' i)"
proof (intro conjI impI)
  assume ok: "load_try L now read_fails se t fs = Inr (t', fs')"
  then show "load_seen_prs L now read_fails se t fs = Inr (t', fs')"
    by (simp add: load_seen_prs_def)
  obtain valid where
    loop: "load_loop L (now - retention_window) entries [] = Inr valid"
    and t': "t' = t\<lparr>seen_prs := valid\<rparr>"
    using load_try_Doc[OF assms(1,2) ok] by blast
  have "entry_key L (now - retention_window) (JInt i) = Some (IntKey i)" by simp
  with assms(3) load_loop_set[OF loop] t' show "has_seen_pr t' i"
    by (auto simp: has_seen_pr_def intro!: bexI[of _ "JInt i"])
next
  assume ok: "cleanup_try L now' read_fails' se' days t fs = Inr (t'', fs'')"
  then show "cleanup_old_entries L now' read_fails' se' days t fs = Inr (t'', fs'')"
    by (simp add: cleanup_old_entries_def)
  obtain valid where
    loop: "cleanup_loop L (now' - days * US_PER_DAY) entries [] = Inr valid"
    and t'': "t'' = t\<lparr>seen_prs := valid\<rparr>"
    using cleanup_try_Doc[OF assms(1,2) ok] by blast
  from cleanup_loop_bare[OF loop assms(3)] t'' show "has_seen_pr t'' i"
    by (simp add: has_seen_pr_def)
qed

text \<open>The file \<open>[7]\<close> read on the first of February 2024, by a load and by a cleanup.\<close>

theorem legacy_entries_kept_by_one_read_witness:
  "(Map.empty(''seen_prs.json'' \<mapsto> Doc legacy_doc)) (storage_file (new_tracker ''seen_prs.json''))
     = Some (Doc (JObj [(''prs'', JArr [JInt 7])]))
   \<and> map_of [(''prs'', JArr [JInt 7])] ''prs'' = Some (JArr [JInt 7])
   \<and> JInt 7 \<in> set [JInt 7]
   \<and> load_try sample_lib 63842342400000000 False (sample_env 63842342400000000 NoFault False)
        (new_tracker ''seen_prs.json'') (Map.empty(''seen_prs.json'' \<mapsto> Doc legacy_doc))
      = Inr (\<lparr>storage_file = ''seen_prs.json'', seen_prs = [IntKey 7]\<rparr>,
             Map.empty(''seen_prs.json'' \<mapsto> Doc legacy_doc))
   \<and> has_seen_pr \<lparr>storage_file = ''seen_prs.json'', seen_prs = [IntKey 7]\<rparr> 7
   \<and> cleanup_try sample_lib 63842342400000000 False (sample_env 63842342400000000 NoFault False) 30
        (new_tracker ''seen_prs.json'') (Map.empty(''seen_prs.json'' \<mapsto> Doc legacy_doc))
      = Inr (\<lparr>storage_file = ''seen_prs.json'', seen_prs = [IntKey 7]\<rparr>,
             Map.empty(''seen_prs.json'' \<mapsto>
                Doc (save_data sample_lib 63842342400000000 [IntKey 7])))"
proof -
  let ?fs = "Map.empty(''seen_prs.json'' \<mapsto> Doc legacy_doc)"
  let ?t0 = "new_tracker ''seen_prs.json''"
  let ?e = "sample_env 63842342400000000 NoFault False"
  let ?t' = "\<lparr>storage_file = ''seen_prs.json'', seen_prs = [IntKey 7]\<rparr>"
  have h1: "?fs (storage_file ?t0) = Some (Doc (JObj [(''prs'', JArr [JInt 7])]))"
    by (simp add: new_tracker_def legacy_doc_def)
  have h2: "map_of [(''prs'', JArr [JInt 7])] ''prs'' = Some (JArr [JInt 7])"
    by simp
  have h3: "JInt 7 \<in> set [JInt 7]"
    by simp
  have l: "load_try sample_lib 63842342400000000 False ?e ?t0 ?fs = Inr (?t', ?fs)"
    by (simp add: eval_defs legacy_doc_def fun_eq_iff)
  have c: "cleanup_try sample_lib 63842342400000000 False ?e 30 ?t0 ?fs
      = Inr (?t', Map.empty(''seen_prs.json'' \<mapsto>
                Doc (save_data sample_lib 63842342400000000 [IntKey 7])))"
    by (simp add: eval_defs legacy_doc_def fun_eq_iff)
  show ?thesis
    using h1 h2 h3 l c
      legacy_entries_kept_by_one_read
        [where fs = "?fs" and t = "?t0" and kvs = "[(''prs'', JArr [JInt 7])]"
           and entries = "[JInt 7]" and i = 7 and L = sample_lib
           and now = 63842342400000000 and read_fails = False and se = "?e"
           and t' = "?t'" and fs' = "?fs"
           and now' = 63842342400000000 and read_fails' = False and se' = "?e" and days = 30
           and t'' = "?t'"
           and fs'' = "Map.empty(''seen_prs.json'' \<mapsto>
                Doc (save_data sample_lib 63842342400000000 [IntKey 7]))"]
    by simp
qed

text \<open>
  The claim as stated fails across a save: the file \<open>[7]\<close> is loaded on the first of
  January 2024 and 8 is marked, which rewrites the file with both identifiers stamped
  that day; a fresh tracker on the first of February drops both, 7 included.
\<close>

theorem legacy_entry_expires_counterexample:
  "PRTracker sample_lib 63839664000000000 False (sample_env 63839664000000000 NoFault False)
     ''seen_prs.json'' (Map.empty(''seen_prs.json'' \<mapsto> Doc legacy_doc))
   = Inr (\<lparr>storage_file = ''seen_prs.json'', seen_prs = [IntKey 7]\<rparr>,
          Map.empty(''seen_prs.json'' \<mapsto> Doc legacy_doc))
   \<and> mark_pr_as_seen sample_lib (sample_env 63839664000000000 NoFault False) 8
       \<lparr>storage_file = ''seen_prs.json'', seen_prs = [IntKey 7]\<rparr>
       (Map.empty(''seen_prs.json'' \<mapsto> Doc legacy_doc))
     = (None, \<lparr>storage_file = ''seen_prs.json'', seen_prs = [IntKey 7, IntKey 8]\<rparr>,
            Map.empty(''seen_prs.json'' \<mapsto>
              Doc (save_data sample_lib 63839664000000000 [IntKey 7, IntKey 8])))
   \<and> PRTracker sample_lib 63842342400000000 False (sample_env 63842342400000000 NoFault False)
       ''seen_prs.json''
       (Map.empty(''seen_prs.json'' \<mapsto>
              Doc (save_data sample_lib 63839664000000000 [IntKey 7, IntKey 8])))
     = Inr (\<lparr>storage_file = ''seen_prs.json'', seen_prs = []\<rparr>,
            Map.empty(''seen_prs.json'' \<mapsto> Doc (save_data sample_lib 63842342400000000 [])))
   \<and> \<not> has_seen_pr \<lparr>storage_file = ''seen_prs.json'', seen_prs = []\<rparr> 7"
  by (simp add: eval_defs legacy_doc_def fun_eq_iff)

section \<open>Records the load passes over\<close>

lemma entry_key_prs_record:
  "entry_key L c (prs_record ct k) = Some k' \<Longrightarrow> k' = k \<and> truthy (key_json k)"
  by (cases k) (auto simp: prs_record_def split: if_splits option.splits)




section \<open>Seen stays seen\<close>






section \<open>Saving and loading again\<close>

lemma load_entry_prs_record:
  "\<exists>v'. load_entry L c (prs_record ct k) v = Inr v'"
  by (cases k)
     (auto simp: prs_record_def set_add_json_def Let_def split: option.splits)

lemma load_loop_records_returns:
  "\<exists>r. load_loop L c (map (prs_record ct) ks) v = Inr r"
proof (induction ks arbitrary: v)
  case Nil
  then show ?case by simp
next
  case (Cons k ks)
  obtain v' where "load_entry L c (prs_record ct k) v = Inr v'"
    using load_entry_prs_record by blast
  with Cons.IH[of v'] show ?case by (simp add: bindE_def)
qed

lemma entry_key_prs_record_fresh:
  "truthy (key_json k) \<Longrightarrow> ct \<noteq> [] \<Longrightarrow> fromisoformat L (str_replace_Z ct) = Some ts
     \<Longrightarrow> c \<le> ts \<Longrightarrow> entry_key L c (prs_record ct k) = Some k"
  by (cases k) (auto simp: prs_record_def)

text \<open>
  Where the library parses what it printed and the file is read within the window, a
  fresh tracker gets back every identifier that is truthy in Python, and nothing else.
\<close>

lemma round_trip_keeps_truthy:
  assumes rt: "fromisoformat L (str_replace_Z (isoformat L ts @ ''Z'')) = Some ts"
    and lo: "retention_window \<le> now"
    and hi: "now - retention_window \<le> MAX_US"
    and fresh: "now - ts \<le> retention_window"
  shows "\<exists>t3 fs3. PRTracker L now False se path (fs(path \<mapsto> Doc (save_data L ts s)))
                     = Inr (t3, fs3)
           \<and> set (seen_prs t3) = {k \<in> set s. truthy (key_json k)}"
proof -
  let ?ct = "isoformat L ts @ ''Z''"
  let ?c = "now - retention_window"
  let ?es = "map (prs_record ?ct) (remdups s)"
  let ?fs = "fs(path \<mapsto> Doc (save_data L ts s))"
  let ?t0 = "\<lparr>storage_file = path, seen_prs = []\<rparr>"
  obtain r where loop: "load_loop L ?c ?es [] = Inr r"
    using load_loop_records_returns by blast
  have keys: "set r = {k \<in> set s. truthy (key_json k)}"
  proof -
    have "entry_key L ?c (prs_record ?ct k) = Some k' \<longleftrightarrow> k' = k \<and> truthy (key_json k)"
      for k k'
      using entry_key_prs_record[of L ?c ?ct k k']
            entry_key_prs_record_fresh[of k ?ct L ts ?c] rt fresh
      by auto
    with load_loop_set[OF loop] show ?thesis by auto
  qed
  obtain fs' where sv: "save_seen_prs L se (?t0\<lparr>seen_prs := r\<rparr>) ?fs = Inr fs'"
    using save_seen_prs_returns by blast
  have "load_try L now False se ?t0 ?fs =
          Inr (?t0\<lparr>seen_prs := r\<rparr>, if set_len r \<noteq> length ?es then fs' else ?fs)"
    using loop sv lo hi
    by (simp add: load_try_def json_load_def timedelta_days_def datetime_sub_def
          retention_window_def bindE_def save_data_def Let_def)
  then show ?thesis
    using keys by (simp add: PRTracker_def load_seen_prs_def)
qed

text \<open>
  Claim C2, at the store \<open>{0}\<close>. The claim says that saving a store and constructing a
  fresh tracker on the same path gives back the same set. Here the store holds the
  identifier 0 and is saved without failure; the fresh tracker, built at the same
  instant, has an empty set (and rewrites the file without the record), because the
  test \<^verbatim>\<open>if pr_id and timestamp_str\<close> takes the id 0 for a missing one.
  \<^verbatim>\<open>cleanup_old_entries\<close>, reading the same file, keeps 0.
\<close>

theorem round_trip_loses_zero:
  "has_seen_pr \<lparr>storage_file = ''seen_prs.json'', seen_prs = [IntKey 0]\<rparr> 0
   \<and> save_seen_prs sample_lib (sample_env 63839664000000000 NoFault False)
       \<lparr>storage_file = ''seen_prs.json'', seen_prs = [IntKey 0]\<rparr> Map.empty
     = Inr (Map.empty(''seen_prs.json'' \<mapsto> Doc (save_data sample_lib 63839664000000000 [IntKey 0])))
   \<and> PRTracker sample_lib 63839664000000000 False (sample_env 63839664000000000 NoFault False)
       ''seen_prs.json''
       (Map.empty(''seen_prs.json'' \<mapsto> Doc (save_data sample_lib 63839664000000000 [IntKey 0])))
     = Inr (\<lparr>storage_file = ''seen_prs.json'', seen_prs = []\<rparr>,
            Map.empty(''seen_prs.json'' \<mapsto> Doc (save_data sample_lib 63839664000000000 [])))
   \<and> \<not> has_seen_pr \<lparr>storage_file = ''seen_prs.json'', seen_prs = []\<rparr> 0
   \<and> cleanup_old_entries sample_lib 63839664000000000 False
       (sample_env 63839664000000000 NoFault False) 30
       \<lparr>storage_file = ''seen_prs.json'', seen_prs = []\<rparr>
       (Map.empty(''seen_prs.json'' \<mapsto> Doc (save_data sample_lib 63839664000000000 [IntKey 0])))
     = Inr (\<lparr>storage_file = ''seen_prs.json'', seen_prs = [IntKey 0]\<rparr>,
            Map.empty(''seen_prs.json'' \<mapsto> Doc (save_data sample_lib 63839664000000000 [IntKey 0])))"
  by (simp add: eval_defs fun_eq_iff)

end
